theory Spec2Isabelle
  imports Main
begin

section \<open>The Result container of result.cpp\<close>

text \<open>
  The module exports the class template \<^verbatim>\<open>Result<ok_t, err_t>\<close>, the wrappers
  \<^verbatim>\<open>Success<ok_t>\<close> and \<^verbatim>\<open>Failure<err_t>\<close> and the factories \<^verbatim>\<open>Ok\<close> and
  \<^verbatim>\<open>Err\<close>. The embedding has three layers:
  \<^item> the template arguments, as far as the source inspects them
    (\<^verbatim>\<open>std::is_same_v\<close> in the \<^verbatim>\<open>static_assert\<close>, in \<^verbatim>\<open>std::enable_if_t\<close> and
    in \<^verbatim>\<open>Expect\<close>);
  \<^item> the objects: wrappers and containers as records, the raw \<^verbatim>\<open>m_storage\<close> as a
    datatype that says which object, if any, is alive in it;
  \<^item> a store from addresses to containers, for the constructors that take another
    container by reference and for the destructor.
\<close>

subsection \<open>Template arguments\<close>

text \<open>
  A C++ type, as a template argument. The source compares template arguments with two
  types only: \<^verbatim>\<open>void\<close> and \<^verbatim>\<open>None\<close> (\<^verbatim>\<open>typedef None__* None\<close>). Every other
  type is known by its name and by its kind, which decides whether line 167 has a type.
\<close>

datatype cpp_type =
    void_t
  | None_t
  | Arithmetic string   \<comment> \<open>an arithmetic or enumeration type: \<^verbatim>\<open>int\<close>\<close>
  | Pointer string      \<comment> \<open>an object pointer type other than \<^verbatim>\<open>None\<close>\<close>
  | Class string bool   \<comment> \<open>a class type; true when \<^verbatim>\<open>nullptr\<close> converts to it implicitly,
                            as to \<^verbatim>\<open>std::shared_ptr<T>\<close>\<close>

definition is_same_v :: "cpp_type \<Rightarrow> cpp_type \<Rightarrow> bool" where
  "is_same_v T U = (T = U)"

text \<open>
  Line 81: \<^verbatim>\<open>static_assert(!std::is_same_v<err_t, void>, "'None error type is not allowed")\<close>.
  True when the assertion lets the instantiation \<^verbatim>\<open>Result<ok_t, err_t>\<close> through.
\<close>

definition Result_static_assert :: "cpp_type \<Rightarrow> bool" where
  "Result_static_assert err_t = (\<not> is_same_v err_t void_t)"

text \<open>
  Lines 127 and 140: \<^verbatim>\<open>std::enable_if_t<!std::is_same_v<T, None>, T>\<close> as the return type
  of a member template with \<^verbatim>\<open>class T = ok_t\<close>. Where the condition is false there is
  no return type, the member drops out of overload resolution and the call does not
  compile. In \<^verbatim>\<open>GetOk()\<close> nothing deduces \<^verbatim>\<open>T\<close>, so it is \<^verbatim>\<open>ok_t\<close>. In
  \<^verbatim>\<open>TryGet(const T& defval)\<close> the argument deduces it, and the default is not used:
  \<^verbatim>\<open>T\<close> is the type of the argument, whatever \<^verbatim>\<open>ok_t\<close> is.
\<close>

definition enable_if_not_None :: "cpp_type \<Rightarrow> bool" where
  "enable_if_not_None T = (\<not> is_same_v T None_t)"

text \<open>
  Line 167: \<^verbatim>\<open>std::is_same_v<ok_t, None> ? nullptr : Ok()\<close>. The condition is a constant,
  but the conditional expression is type-checked whole in every instantiation of
  \<^verbatim>\<open>Expect\<close>: its operands are a prvalue of type \<^verbatim>\<open>std::nullptr_t\<close> and an lvalue of
  type \<^verbatim>\<open>const ok_t\<close>. It has a type when \<^verbatim>\<open>ok_t\<close> is a pointer type (the composite
  pointer type) or a class type that \<^verbatim>\<open>nullptr\<close> converts to. For an arithmetic or
  enumeration type neither operand converts to the type of the other, and for a class
  type without the conversion no conversion exists either: the expression is ill-formed
  (C++20 [expr.cond] paragraphs 4, 6 and 7), and so is a program that calls \<^verbatim>\<open>Expect\<close>.
\<close>

fun conditional_nullptr :: "cpp_type \<Rightarrow> bool" where
  "conditional_nullptr void_t = False"
| "conditional_nullptr None_t = True"
| "conditional_nullptr (Arithmetic n) = False"
| "conditional_nullptr (Pointer n) = True"
| "conditional_nullptr (Class n from_nullptr) = from_nullptr"

subsection \<open>Values\<close>

text \<open>
  A payload value is either the null pointer of type \<^verbatim>\<open>None\<close>, which is all that
  \<^verbatim>\<open>Ok()\<close> and \<^verbatim>\<open>Expect\<close> ever produce of that type, or an object of another type.
\<close>

datatype 'a val = nullptr | Obj 'a

text \<open>
  The expression a new object is initialised from has a constness and a value category.
  A type with a copy constructor \<^verbatim>\<open>T(const T&)\<close> and a move constructor \<^verbatim>\<open>T(T&&)\<close>
  is moved from only through a non-const rvalue: \<^verbatim>\<open>T&&\<close> does not bind to
  \<^verbatim>\<open>const T&&\<close>, which the copy constructor takes instead.
\<close>

datatype constness = Const | Mutable

datatype category = LValue | XValue

text \<open>
  What a move constructor leaves in its argument is up to the payload type: the function
  \<open>mv\<close> gives it. A pointer is copied.
\<close>

fun moved_from :: "('a \<Rightarrow> 'a) \<Rightarrow> 'a val \<Rightarrow> 'a val" where
  "moved_from mv nullptr = nullptr"
| "moved_from mv (Obj x) = Obj (mv x)"

text \<open>
  \<open>initialise mv c k v\<close> is the direct initialisation \<^verbatim>\<open>T(e)\<close> from an expression
  \<^verbatim>\<open>e\<close> of constness \<open>c\<close> and category \<open>k\<close> that denotes an object of value \<open>v\<close>:
  the value of the new object, and the value left in the object \<^verbatim>\<open>e\<close> denotes.
\<close>

fun initialise :: "('a \<Rightarrow> 'a) \<Rightarrow> constness \<Rightarrow> category \<Rightarrow> 'a val \<Rightarrow> 'a val \<times> 'a val" where
  "initialise mv Mutable XValue v = (v, moved_from mv v)"
| "initialise mv Mutable LValue v = (v, v)"
| "initialise mv Const k v = (v, v)"

subsection \<open>Wrappers and factories\<close>

text \<open>
  \<^verbatim>\<open>Success<ok_t>\<close> and \<^verbatim>\<open>Failure<err_t>\<close> have one member each, \<^verbatim>\<open>value\<close>.
\<close>

record 'a Success =
  Success_value :: "'a val"

record 'e Failure =
  Failure_value :: "'e val"

text \<open>
  Lines 53 to 72. \<^verbatim>\<open>Ok()\<close> is \<^verbatim>\<open>Success<None>(nullptr)\<close>; \<^verbatim>\<open>Ok(value)\<close> and
  \<^verbatim>\<open>Err(value)\<close> forward their argument to the wrapper's constructor, which initialises
  the member \<^verbatim>\<open>value\<close> from it (by copy or by move: the wrapper carries the argument's
  value in both).
\<close>

definition Ok_None :: "'a Success" where
  "Ok_None = \<lparr>Success_value = nullptr\<rparr>"

definition Ok :: "'a val \<Rightarrow> 'a Success" where
  "Ok v = \<lparr>Success_value = v\<rparr>"

definition Err :: "'e val \<Rightarrow> 'e Failure" where
  "Err v = \<lparr>Failure_value = v\<rparr>"

subsection \<open>The container\<close>

text \<open>
  \<^verbatim>\<open>m_storage\<close> is raw memory for one object, placed there by a constructor with
  \<^verbatim>\<open>new (&m_storage) ok_t(...)\<close> or \<^verbatim>\<open>new (&m_storage) err_t(...)\<close> and ended by a
  destructor call. \<open>Raw\<close> is the storage with no object alive in it.
\<close>

datatype ('a, 'e) storage = Raw | Holds_ok "'a val" | Holds_err "'e val"

record ('a, 'e) Result =
  m_success :: bool
  m_storage :: "('a, 'e) storage"

text \<open>
  Lines 179 to 182: \<^verbatim>\<open>Ok()\<close> and \<^verbatim>\<open>Err()\<close> reinterpret the storage as an \<^verbatim>\<open>ok_t\<close>
  or an \<^verbatim>\<open>err_t\<close>. Using the result is defined only when an object of that type is
  alive there: \<open>None\<close> is the undefined behaviour otherwise.
\<close>

definition Result_Ok :: "('a, 'e) Result \<Rightarrow> 'a val option" where
  "Result_Ok r = (case m_storage r of Holds_ok v \<Rightarrow> Some v | Holds_err e \<Rightarrow> None | Raw \<Rightarrow> None)"

definition Result_Err :: "('a, 'e) Result \<Rightarrow> 'e val option" where
  "Result_Err r = (case m_storage r of Holds_err e \<Rightarrow> Some e | Holds_ok v \<Rightarrow> None | Raw \<Rightarrow> None)"

text \<open>
  Invariant B of the data model: one payload is alive in the storage, of the type the
  discriminant names.
\<close>

definition inv_B :: "('a, 'e) Result \<Rightarrow> bool" where
  "inv_B r = (case m_storage r of
      Holds_ok v \<Rightarrow> m_success r
    | Holds_err e \<Rightarrow> \<not> m_success r
    | Raw \<Rightarrow> False)"

subsection \<open>Outcomes of a call\<close>

text \<open>
  Line 186 writes to \<^verbatim>\<open>std::cerr\<close> with two insertions, the string and
  \<^verbatim>\<open>std::endl\<close>.
\<close>

datatype cerr_event = Text string | Endl

text \<open>
  A call of a member function either does not compile, or returns a value, or ends the
  process in \<^verbatim>\<open>std::terminate()\<close> after the given output to \<^verbatim>\<open>std::cerr\<close>, or has
  undefined behaviour.
\<close>

datatype 'r outcome = Ill_formed | Return 'r | Terminate "cerr_event list" | Undefined

definition ErrorTerminate :: "string \<Rightarrow> 'r outcome" where
  "ErrorTerminate str = Terminate [Text str, Endl]"

definition returning :: "'r option \<Rightarrow> 'r outcome" where
  "returning x = (case x of Some v \<Rightarrow> Return v | None \<Rightarrow> Undefined)"

subsection \<open>Accessors\<close>

text \<open>
  Lines 126 to 176. The accessors that the source declares \<^verbatim>\<open>const\<close> read the
  container and return by value. \<^verbatim>\<open>ErrorTerminate\<close> does not return, so the statement
  after it runs only when the test before it failed. The template argument \<open>ok_t\<close> is a
  parameter where the source inspects it.
\<close>

text \<open>
  Lines 126 to 133, \<^verbatim>\<open>TryGet(const T& defval)\<close>. \<open>T\<close> is the type of the argument,
  which the call deduces; the \<^verbatim>\<open>enable_if\<close> tests \<open>T\<close> and the function returns a
  \<open>T\<close>. So \<^verbatim>\<open>return Ok()\<close> converts the payload, a \<^verbatim>\<open>const ok_t\<close>, to \<open>T\<close>
  implicitly: \<open>conv\<close> is that conversion, \<open>None\<close> where the language has none from
  \<^verbatim>\<open>ok_t\<close> to \<open>T\<close> (the body is then ill-formed in this instantiation) and the copy
  \<open>Some id\<close> where \<open>T\<close> is \<^verbatim>\<open>ok_t\<close>.
\<close>

definition TryGet ::
  "cpp_type \<Rightarrow> ('a val \<Rightarrow> 'd val) option \<Rightarrow> ('a, 'e) Result \<Rightarrow> 'd val \<Rightarrow> 'd val outcome" where
  "TryGet T conv r defval =
     (if \<not> enable_if_not_None T then Ill_formed
      else (case conv of
              None \<Rightarrow> Ill_formed
            | Some c \<Rightarrow>
                if m_success r
                then (case Result_Ok r of Some v \<Rightarrow> Return (c v) | None \<Rightarrow> Undefined)
                else Return defval))"

definition GetOk :: "cpp_type \<Rightarrow> ('a, 'e) Result \<Rightarrow> 'a val outcome" where
  "GetOk ok_t r =
     (if \<not> enable_if_not_None ok_t then Ill_formed
      else if \<not> m_success r then ErrorTerminate ''Attempting to Result::GetOk an error Result.''
      else returning (Result_Ok r))"

definition GetErr :: "('a, 'e) Result \<Rightarrow> 'e val outcome" where
  "GetErr r =
     (if m_success r then ErrorTerminate ''Attempting to Result::GetErr an ok Result.''
      else returning (Result_Err r))"

definition Expect :: "cpp_type \<Rightarrow> ('a, 'e) Result \<Rightarrow> string \<Rightarrow> 'a val outcome" where
  "Expect ok_t r msg =
     (if \<not> conditional_nullptr ok_t then Ill_formed
      else if \<not> m_success r then ErrorTerminate msg
      else if is_same_v ok_t None_t then Return nullptr
      else returning (Result_Ok r))"

text \<open>
  \<^verbatim>\<open>operator bool()\<close> is not declared \<^verbatim>\<open>const\<close>: it returns its result together with
  the container as it leaves it.
\<close>

definition operator_bool :: "('a, 'e) Result \<Rightarrow> bool \<times> ('a, 'e) Result" where
  "operator_bool r = (m_success r, r)"

subsection \<open>Constructors and destructor\<close>

text \<open>
  Lines 87 to 97. The wrapper is a \<^verbatim>\<open>const Success<ok_t>&\<close>, so
  \<^verbatim>\<open>std::move(ok.value)\<close> is a const rvalue. The constructor returns the new container
  and the wrapper as it leaves it.
\<close>

definition Result_from_Success ::
  "('a \<Rightarrow> 'a) \<Rightarrow> 'a Success \<Rightarrow> ('a, 'e) Result \<times> 'a Success" where
  "Result_from_Success mv ok =
     (case initialise mv Const XValue (Success_value ok) of
        (new, old) \<Rightarrow> (\<lparr>m_success = True, m_storage = Holds_ok new\<rparr>, ok\<lparr>Success_value := old\<rparr>))"

definition Result_from_Failure ::
  "('e \<Rightarrow> 'e) \<Rightarrow> 'e Failure \<Rightarrow> ('a, 'e) Result \<times> 'e Failure" where
  "Result_from_Failure mv err =
     (case initialise mv Const XValue (Failure_value err) of
        (new, old) \<Rightarrow> (\<lparr>m_success = False, m_storage = Holds_err new\<rparr>, err\<lparr>Failure_value := old\<rparr>))"

text \<open>What goes wrong in a constructor or destructor: both are undefined behaviour.\<close>

datatype fault =
    No_object        \<comment> \<open>no container at the address\<close>
  | Lifetime_ended   \<comment> \<open>the storage holds no object: its payload was destroyed before\<close>
  | Type_confusion   \<comment> \<open>the storage holds an object of the other payload type\<close>

definition payload_fault :: "('a, 'e) Result \<Rightarrow> fault" where
  "payload_fault r = (case m_storage r of Raw \<Rightarrow> Lifetime_ended | Holds_ok v \<Rightarrow> Type_confusion | Holds_err e \<Rightarrow> Type_confusion)"

text \<open>
  Lines 118 to 124, \<^verbatim>\<open>~Result()\<close>: the destructor of the payload type that the
  discriminant names runs on the storage and ends the life of the object there. The
  discriminant stays.
\<close>

definition Result_dtor :: "('a, 'e) Result \<Rightarrow> fault + ('a, 'e) Result" where
  "Result_dtor r =
     (if m_success r
      then (case Result_Ok r of Some v \<Rightarrow> Inr (r\<lparr>m_storage := Raw\<rparr>) | None \<Rightarrow> Inl (payload_fault r))
      else (case Result_Err r of Some e \<Rightarrow> Inr (r\<lparr>m_storage := Raw\<rparr>) | None \<Rightarrow> Inl (payload_fault r)))"

text \<open>
  Lines 99 to 106, \<^verbatim>\<open>Result(const Result& result)\<close>: the source is const, so
  \<^verbatim>\<open>std::forward<const ok_t>(result.Ok())\<close> is a const rvalue. The result is the new
  container and the source as the constructor leaves it.
\<close>

definition Result_copy ::
  "('a \<Rightarrow> 'a) \<Rightarrow> ('e \<Rightarrow> 'e) \<Rightarrow> ('a, 'e) Result \<Rightarrow> fault + (('a, 'e) Result \<times> ('a, 'e) Result)" where
  "Result_copy mo me result =
     (if m_success result
      then (case Result_Ok result of
              None \<Rightarrow> Inl (payload_fault result)
            | Some v \<Rightarrow> (case initialise mo Const XValue v of (new, old) \<Rightarrow>
                Inr (\<lparr>m_success = m_success result, m_storage = Holds_ok new\<rparr>,
                     result\<lparr>m_storage := Holds_ok old\<rparr>)))
      else (case Result_Err result of
              None \<Rightarrow> Inl (payload_fault result)
            | Some e \<Rightarrow> (case initialise me Const XValue e of (new, old) \<Rightarrow>
                Inr (\<lparr>m_success = m_success result, m_storage = Holds_err new\<rparr>,
                     result\<lparr>m_storage := Holds_err old\<rparr>))))"

text \<open>
  Lines 108 to 116, \<^verbatim>\<open>Result(Result&& result)\<close>: the source is not const, so
  \<^verbatim>\<open>std::forward<ok_t>(result.Ok())\<close> is a non-const rvalue and the payload is moved.
  Line 115 then calls the destructor of the source, \<^verbatim>\<open>result.~Result()\<close>.
\<close>

definition Result_move ::
  "('a \<Rightarrow> 'a) \<Rightarrow> ('e \<Rightarrow> 'e) \<Rightarrow> ('a, 'e) Result \<Rightarrow> fault + (('a, 'e) Result \<times> ('a, 'e) Result)" where
  "Result_move mo me result =
     (if m_success result
      then (case Result_Ok result of
              None \<Rightarrow> Inl (payload_fault result)
            | Some v \<Rightarrow> (case initialise mo Mutable XValue v of (new, old) \<Rightarrow>
                (case Result_dtor (result\<lparr>m_storage := Holds_ok old\<rparr>) of
                   Inl f \<Rightarrow> Inl f
                 | Inr result' \<Rightarrow>
                     Inr (\<lparr>m_success = m_success result, m_storage = Holds_ok new\<rparr>, result'))))
      else (case Result_Err result of
              None \<Rightarrow> Inl (payload_fault result)
            | Some e \<Rightarrow> (case initialise me Mutable XValue e of (new, old) \<Rightarrow>
                (case Result_dtor (result\<lparr>m_storage := Holds_err old\<rparr>) of
                   Inl f \<Rightarrow> Inl f
                 | Inr result' \<Rightarrow>
                     Inr (\<lparr>m_success = m_success result, m_storage = Holds_err new\<rparr>, result')))))"

subsection \<open>Containers at addresses\<close>

text \<open>
  A constructor builds the container at the address \<open>this\<close> from the container at the
  address \<open>src\<close>, which it may change; the destructor runs on the container at \<open>this\<close>.
  Every other address keeps what it holds.
\<close>

type_synonym addr = nat

type_synonym ('a, 'e) store = "addr \<Rightarrow> ('a, 'e) Result option"

definition copy_construct ::
  "('a \<Rightarrow> 'a) \<Rightarrow> ('e \<Rightarrow> 'e) \<Rightarrow> ('a, 'e) store \<Rightarrow> addr \<Rightarrow> addr \<Rightarrow> fault + ('a, 'e) store" where
  "copy_construct mo me st this src =
     (case st src of
        None \<Rightarrow> Inl No_object
      | Some result \<Rightarrow> (case Result_copy mo me result of
          Inl f \<Rightarrow> Inl f
        | Inr (new, result') \<Rightarrow> Inr ((st(src := Some result'))(this := Some new))))"

definition move_construct ::
  "('a \<Rightarrow> 'a) \<Rightarrow> ('e \<Rightarrow> 'e) \<Rightarrow> ('a, 'e) store \<Rightarrow> addr \<Rightarrow> addr \<Rightarrow> fault + ('a, 'e) store" where
  "move_construct mo me st this src =
     (case st src of
        None \<Rightarrow> Inl No_object
      | Some result \<Rightarrow> (case Result_move mo me result of
          Inl f \<Rightarrow> Inl f
        | Inr (new, result') \<Rightarrow> Inr ((st(src := Some result'))(this := Some new))))"

definition destroy :: "('a, 'e) store \<Rightarrow> addr \<Rightarrow> fault + ('a, 'e) store" where
  "destroy st this =
     (case st this of
        None \<Rightarrow> Inl No_object
      | Some r \<Rightarrow> (case Result_dtor r of
          Inl f \<Rightarrow> Inl f
        | Inr r' \<Rightarrow> Inr (st(this := Some r'))))"

section \<open>Properties\<close>

subsection \<open>The constructors establish invariant B\<close>

lemma Result_from_Success_eq:
  "Result_from_Success mv ok = (\<lparr>m_success = True, m_storage = Holds_ok (Success_value ok)\<rparr>, ok)"
  by (simp add: Result_from_Success_def)

lemma Result_from_Failure_eq:
  "Result_from_Failure mv err = (\<lparr>m_success = False, m_storage = Holds_err (Failure_value err)\<rparr>, err)"
  by (simp add: Result_from_Failure_def)

lemma inv_B_from_Success: "inv_B (fst (Result_from_Success mv ok))"
  by (simp add: Result_from_Success_eq inv_B_def)

lemma inv_B_from_Failure: "inv_B (fst (Result_from_Failure mv err))"
  by (simp add: Result_from_Failure_eq inv_B_def)

lemma inv_B_cases:
  assumes "inv_B r"
  obtains (success) v where "m_success r" "m_storage r = Holds_ok v"
        | (failure) e where "\<not> m_success r" "m_storage r = Holds_err e"
  using assms by (auto simp: inv_B_def split: storage.splits)

lemma Result_copy_inv:
  assumes "inv_B r"
  shows "Result_copy mo me r = Inr (r, r)"
  using assms
  by (cases rule: inv_B_cases)
     (simp_all add: Result_copy_def Result_Ok_def Result_Err_def)

lemma Result_move_inv:
  assumes "inv_B r"
  shows "Result_move mo me r = Inr (r, r\<lparr>m_storage := Raw\<rparr>)"
  using assms
  by (cases rule: inv_B_cases)
     (simp_all add: Result_move_def Result_dtor_def Result_Ok_def Result_Err_def)

lemma Result_dtor_inv:
  assumes "inv_B r"
  shows "Result_dtor r = Inr (r\<lparr>m_storage := Raw\<rparr>)"
  using assms
  by (cases rule: inv_B_cases)
     (simp_all add: Result_dtor_def Result_Ok_def Result_Err_def)

lemma Result_dtor_Raw:
  assumes "m_storage r = Raw"
  shows "Result_dtor r = Inl Lifetime_ended"
  using assms
  by (simp add: Result_dtor_def Result_Ok_def Result_Err_def payload_fault_def)

subsection \<open>GetOk and GetErr\<close>

text \<open>
  Claim C1. Where the success payload type is not \<^verbatim>\<open>None\<close>, \<^verbatim>\<open>GetOk()\<close> on a container
  whose success variant is active returns the payload alive in the storage, and on a
  container whose failure variant is active it writes its fixed message and
  \<^verbatim>\<open>std::endl\<close> to \<^verbatim>\<open>std::cerr\<close> and terminates. On a container built from
  \<^verbatim>\<open>Ok(v)\<close> it returns \<open>v\<close>.
\<close>

theorem GetOk_returns_or_terminates:
  assumes "ok_t \<noteq> None_t" and "inv_B r"
  shows "(m_success r \<longrightarrow> (\<exists>v. m_storage r = Holds_ok v \<and> GetOk ok_t r = Return v))
       \<and> (\<not> m_success r \<longrightarrow>
            GetOk ok_t r = Terminate [Text ''Attempting to Result::GetOk an error Result.'', Endl])
       \<and> GetOk ok_t (fst (Result_from_Success mv (Ok v0))) = Return v0"
proof (intro conjI impI)
  assume "m_success r"
  with \<open>inv_B r\<close> obtain v where "m_storage r = Holds_ok v"
    by (auto elim: inv_B_cases)
  with \<open>m_success r\<close> \<open>ok_t \<noteq> None_t\<close>
  show "\<exists>v. m_storage r = Holds_ok v \<and> GetOk ok_t r = Return v"
    by (simp add: GetOk_def enable_if_not_None_def is_same_v_def Result_Ok_def returning_def)
next
  assume "\<not> m_success r"
  with \<open>ok_t \<noteq> None_t\<close>
  show "GetOk ok_t r = Terminate [Text ''Attempting to Result::GetOk an error Result.'', Endl]"
    by (simp add: GetOk_def enable_if_not_None_def is_same_v_def ErrorTerminate_def)
next
  from \<open>ok_t \<noteq> None_t\<close>
  show "GetOk ok_t (fst (Result_from_Success mv (Ok v0))) = Return v0"
    by (simp add: GetOk_def enable_if_not_None_def is_same_v_def Result_from_Success_eq
        Ok_def Result_Ok_def returning_def)
qed

theorem GetOk_returns_or_terminates_witness:
  "Arithmetic ''int'' \<noteq> None_t
   \<and> inv_B (fst (Result_from_Success id (Ok (Obj (3::int)))) :: (int, int) Result)
   \<and> inv_B (fst (Result_from_Failure id (Err (Obj (0::int)))) :: (int, int) Result)
   \<and> GetOk (Arithmetic ''int'') (fst (Result_from_Success id (Ok (Obj (3::int)))) :: (int, int) Result)
       = Return (Obj 3)
   \<and> GetOk (Arithmetic ''int'') (fst (Result_from_Failure id (Err (Obj (0::int)))) :: (int, int) Result)
       = Terminate [Text ''Attempting to Result::GetOk an error Result.'', Endl]"
proof -
  let ?s = "fst (Result_from_Success id (Ok (Obj (3::int)))) :: (int, int) Result"
  let ?f = "fst (Result_from_Failure id (Err (Obj (0::int)))) :: (int, int) Result"
  have t: "Arithmetic ''int'' \<noteq> None_t" by simp
  have s: "inv_B ?s" by (rule inv_B_from_Success)
  have f: "inv_B ?f" by (rule inv_B_from_Failure)
  have ms: "m_success ?s" and mf: "\<not> m_success ?f"
    by (simp_all add: Result_from_Success_eq Result_from_Failure_eq)
  have st: "m_storage ?s = Holds_ok (Obj 3)"
    by (simp add: Result_from_Success_eq Ok_def)
  from GetOk_returns_or_terminates [OF t s] ms st
  have "GetOk (Arithmetic ''int'') ?s = Return (Obj 3)" by auto
  moreover from GetOk_returns_or_terminates [OF t f] mf
  have "GetOk (Arithmetic ''int'') ?f
          = Terminate [Text ''Attempting to Result::GetOk an error Result.'', Endl]" by blast
  ultimately show ?thesis using t s f by blast
qed

text \<open>
  Claim C2. \<^verbatim>\<open>GetErr()\<close> on a container whose failure variant is active returns the
  payload alive in the storage, and on a container whose success variant is active it
  writes its own fixed message and \<^verbatim>\<open>std::endl\<close> to \<^verbatim>\<open>std::cerr\<close> and terminates. On
  a container built from \<^verbatim>\<open>Err(e)\<close> it returns \<open>e\<close>.
\<close>

theorem GetErr_returns_or_terminates:
  assumes "inv_B r"
  shows "(\<not> m_success r \<longrightarrow> (\<exists>e. m_storage r = Holds_err e \<and> GetErr r = Return e))
       \<and> (m_success r \<longrightarrow>
            GetErr r = Terminate [Text ''Attempting to Result::GetErr an ok Result.'', Endl])
       \<and> GetErr (fst (Result_from_Failure mv (Err e0))) = Return e0"
proof (intro conjI impI)
  assume "\<not> m_success r"
  with \<open>inv_B r\<close> obtain e where "m_storage r = Holds_err e"
    by (auto elim: inv_B_cases)
  with \<open>\<not> m_success r\<close>
  show "\<exists>e. m_storage r = Holds_err e \<and> GetErr r = Return e"
    by (simp add: GetErr_def Result_Err_def returning_def)
next
  assume "m_success r"
  then show "GetErr r = Terminate [Text ''Attempting to Result::GetErr an ok Result.'', Endl]"
    by (simp add: GetErr_def ErrorTerminate_def)
next
  show "GetErr (fst (Result_from_Failure mv (Err e0))) = Return e0"
    by (simp add: GetErr_def Result_from_Failure_eq Err_def Result_Err_def returning_def)
qed

theorem GetErr_returns_or_terminates_witness:
  "inv_B (fst (Result_from_Failure id (Err (Obj ''too long''))) :: (int, string) Result)
   \<and> inv_B (fst (Result_from_Success id (Ok (Obj (3::int)))) :: (int, string) Result)
   \<and> GetErr (fst (Result_from_Failure id (Err (Obj ''too long''))) :: (int, string) Result)
       = Return (Obj ''too long'')
   \<and> GetErr (fst (Result_from_Success id (Ok (Obj (3::int)))) :: (int, string) Result)
       = Terminate [Text ''Attempting to Result::GetErr an ok Result.'', Endl]"
proof -
  let ?f = "fst (Result_from_Failure id (Err (Obj ''too long''))) :: (int, string) Result"
  let ?s = "fst (Result_from_Success id (Ok (Obj (3::int)))) :: (int, string) Result"
  have f: "inv_B ?f" by (rule inv_B_from_Failure)
  have s: "inv_B ?s" by (rule inv_B_from_Success)
  have mf: "\<not> m_success ?f" and ms: "m_success ?s"
    by (simp_all add: Result_from_Success_eq Result_from_Failure_eq)
  have st: "m_storage ?f = Holds_err (Obj ''too long'')"
    by (simp add: Result_from_Failure_eq Err_def)
  from GetErr_returns_or_terminates [OF f] mf st
  have "GetErr ?f = Return (Obj ''too long'')" by auto
  moreover from GetErr_returns_or_terminates [OF s] ms
  have "GetErr ?s = Terminate [Text ''Attempting to Result::GetErr an ok Result.'', Endl]"
    by blast
  ultimately show ?thesis using f s by blast
qed

subsection \<open>TryGet, Expect and the boolean conversion\<close>

text \<open>
  A call whose argument has the success payload type deduces \<open>T\<close> as \<^verbatim>\<open>ok_t\<close> and
  returns a copy. Where that type is not \<^verbatim>\<open>None\<close>, \<^verbatim>\<open>TryGet(d)\<close> returns the payload
  alive in the storage when the success variant is active and \<open>d\<close> when the failure
  variant is active. An argument of type \<^verbatim>\<open>None\<close> removes the member, and so does a
  type that the payload does not convert to.
\<close>

lemma TryGet_same_type:
  assumes "T \<noteq> None_t" and "inv_B r"
  shows "(m_success r \<longrightarrow> (\<exists>v. m_storage r = Holds_ok v \<and> TryGet T (Some id) r d = Return v))
       \<and> (\<not> m_success r \<longrightarrow> TryGet T (Some id) r d = Return d)"
proof (intro conjI impI)
  assume "m_success r"
  with \<open>inv_B r\<close> obtain v where "m_storage r = Holds_ok v"
    by (auto elim: inv_B_cases)
  with \<open>T \<noteq> None_t\<close> \<open>m_success r\<close>
  show "\<exists>v. m_storage r = Holds_ok v \<and> TryGet T (Some id) r d = Return v"
    by (simp add: TryGet_def enable_if_not_None_def is_same_v_def Result_Ok_def)
next
  assume "\<not> m_success r"
  with \<open>T \<noteq> None_t\<close> show "TryGet T (Some id) r d = Return d"
    by (simp add: TryGet_def enable_if_not_None_def is_same_v_def)
qed

lemma TryGet_Err_default:
  assumes "T \<noteq> None_t"
  shows "TryGet T (Some c) (fst (Result_from_Failure mv (Err e))) d = Return d"
  using assms
  by (simp add: TryGet_def enable_if_not_None_def is_same_v_def Result_from_Failure_eq)

lemma TryGet_Err_0_default_7:
  "TryGet (Arithmetic ''int'') (Some id)
     (fst (Result_from_Failure id (Err (Obj (0::int)))) :: (int, int) Result) (Obj (7::int))
   = Return (Obj 7)"
  by (simp add: TryGet_def enable_if_not_None_def is_same_v_def Result_from_Failure_eq)

lemma TryGet_None_argument: "TryGet None_t conv r d = Ill_formed"
  by (simp add: TryGet_def enable_if_not_None_def is_same_v_def)

lemma TryGet_no_conversion: "TryGet T None r d = Ill_formed"
  by (simp add: TryGet_def)

text \<open>
  Claim C3. \<^verbatim>\<open>TryGet\<close> is not excluded where the success payload type is \<^verbatim>\<open>None\<close>,
  and it does not always return the success payload: the test of line 127 and the return
  type are on the deduced type of the argument, not on \<^verbatim>\<open>ok_t\<close>.
  \<^item> \<^verbatim>\<open>Result<None, int> r = Ok(); r.TryGet(p)\<close> with \<open>p\<close> a \<^verbatim>\<open>void*\<close> (here the address
    4096) compiles: \<open>T\<close> is \<^verbatim>\<open>void*\<close>, which is not \<^verbatim>\<open>None\<close>, and a \<^verbatim>\<open>None__*\<close>
    converts to \<^verbatim>\<open>void*\<close> keeping the pointer. The call returns the null pointer.
  \<^item> \<^verbatim>\<open>Result<int, int> r = Ok(-1); r.TryGet(7u)\<close> returns the payload converted to
    \<^verbatim>\<open>unsigned int\<close> (32 bits), 4294967295, which is not the payload.
\<close>

theorem TryGet_tests_and_returns_deduced_type:
  "TryGet (Pointer ''void'') (Some id)
      (fst (Result_from_Success id Ok_None) :: (nat, int) Result) (Obj 4096)
     = Return nullptr
   \<and> TryGet (Pointer ''void'') (Some id)
      (fst (Result_from_Success id Ok_None) :: (nat, int) Result) (Obj 4096)
     \<noteq> Ill_formed
   \<and> TryGet (Arithmetic ''unsigned int'') (Some (map_val (\<lambda>x. x mod 4294967296)))
      (fst (Result_from_Success id (Ok (Obj (- 1)))) :: (int, int) Result) (Obj 7)
     = Return (Obj 4294967295)
   \<and> TryGet (Arithmetic ''unsigned int'') (Some (map_val (\<lambda>x. x mod 4294967296)))
      (fst (Result_from_Success id (Ok (Obj (- 1)))) :: (int, int) Result) (Obj 7)
     \<noteq> Return (Obj (- 1))"
  by (simp add: TryGet_def enable_if_not_None_def is_same_v_def Result_from_Success_eq
      Ok_def Ok_None_def Result_Ok_def)

text \<open>
  Where line 167 has a type, \<^verbatim>\<open>Expect(msg)\<close> on a container whose success variant is
  active returns the payload alive in the storage, or the null pointer where the success
  payload type is \<^verbatim>\<open>None\<close>; on a container whose failure variant is active it writes
  \<open>msg\<close>, and nothing but \<^verbatim>\<open>std::endl\<close> after it, to \<^verbatim>\<open>std::cerr\<close> and
  terminates.
\<close>

lemma Expect_returns_or_terminates:
  assumes "conditional_nullptr ok_t" and "inv_B r"
  shows "(m_success r \<longrightarrow>
            (\<exists>v. m_storage r = Holds_ok v
               \<and> Expect ok_t r msg = Return (if ok_t = None_t then nullptr else v)))
       \<and> (\<not> m_success r \<longrightarrow> Expect ok_t r msg = Terminate [Text msg, Endl])"
proof (intro conjI impI)
  assume "m_success r"
  with \<open>inv_B r\<close> obtain v where "m_storage r = Holds_ok v"
    by (auto elim: inv_B_cases)
  with \<open>m_success r\<close> \<open>conditional_nullptr ok_t\<close>
  show "\<exists>v. m_storage r = Holds_ok v
          \<and> Expect ok_t r msg = Return (if ok_t = None_t then nullptr else v)"
    by (simp add: Expect_def is_same_v_def Result_Ok_def returning_def)
next
  assume "\<not> m_success r"
  with \<open>conditional_nullptr ok_t\<close> show "Expect ok_t r msg = Terminate [Text msg, Endl]"
    by (simp add: Expect_def ErrorTerminate_def)
qed

lemma Expect_shared_ptr:
  "Expect (Class ''std::shared_ptr<Request>'' True)
      (fst (Result_from_Failure id (Err (Obj e)))) ''no request'' = Terminate [Text ''no request'', Endl]"
  "Expect (Class ''std::shared_ptr<Request>'' True)
      (fst (Result_from_Success id (Ok (Obj v)))) ''no request'' = Return (Obj v)"
  "Expect None_t (fst (Result_from_Success id Ok_None)) ''failed'' = Return nullptr"
  by (simp_all add: Expect_def ErrorTerminate_def is_same_v_def Result_from_Success_eq
      Result_from_Failure_eq Ok_def Ok_None_def Result_Ok_def returning_def)

lemma Expect_ill_formed:
  assumes "\<not> conditional_nullptr ok_t"
  shows "Expect ok_t r msg = Ill_formed"
  using assms by (simp add: Expect_def)

text \<open>
  Claim C4. \<^verbatim>\<open>Expect(msg)\<close> does not behave alike on every container:
  \<^verbatim>\<open>Result<int, int> r = Err(0); r.Expect("no value");\<close> does not compile. For the
  success payload type \<^verbatim>\<open>int\<close> line 167 is ill-formed, so the call neither writes the
  message nor terminates.
\<close>

theorem Expect_int_does_not_compile:
  "Expect (Arithmetic ''int'')
      (fst (Result_from_Failure id (Err (Obj (0::int)))) :: (int, int) Result) ''no value''
     = Ill_formed
   \<and> Expect (Arithmetic ''int'')
      (fst (Result_from_Failure id (Err (Obj (0::int)))) :: (int, int) Result) ''no value''
     \<noteq> Terminate [Text ''no value'', Endl]"
  by (simp add: Expect_def)

text \<open>
  Claim C7. For \<^verbatim>\<open>Result<int, int>\<close> built from \<^verbatim>\<open>Ok(3)\<close> the boolean conversion
  gives true, but \<^verbatim>\<open>Expect("x")\<close> does not return 3: the call does not compile, for
  the reason given at line 167.
\<close>

theorem Expect_Ok_3_does_not_compile:
  "Expect (Arithmetic ''int'')
      (fst (Result_from_Success id (Ok (Obj (3::int)))) :: (int, int) Result) ''x''
     = Ill_formed
   \<and> Expect (Arithmetic ''int'')
      (fst (Result_from_Success id (Ok (Obj (3::int)))) :: (int, int) Result) ''x''
     \<noteq> Return (Obj 3)
   \<and> fst (operator_bool (fst (Result_from_Success id (Ok (Obj (3::int)))) :: (int, int) Result))
     = True"
  by (simp add: Expect_def operator_bool_def Result_from_Success_eq)

text \<open>
  Claim C8. The boolean conversion returns the discriminant, which is true exactly when
  a success payload is alive in the storage, and leaves the container as it was.
\<close>

theorem operator_bool_reads_discriminant:
  assumes "inv_B r"
  shows "fst (operator_bool r) = (\<exists>v. m_storage r = Holds_ok v)
       \<and> fst (operator_bool r) = m_success r
       \<and> snd (operator_bool r) = r"
  using assms
  by (cases rule: inv_B_cases) (simp_all add: operator_bool_def)

theorem operator_bool_reads_discriminant_witness:
  "inv_B (fst (Result_from_Success id (Ok (Obj (3::int)))) :: (int, int) Result)
   \<and> inv_B (fst (Result_from_Failure id (Err (Obj (0::int)))) :: (int, int) Result)
   \<and> fst (operator_bool (fst (Result_from_Success id (Ok (Obj (3::int)))) :: (int, int) Result))
   \<and> \<not> fst (operator_bool (fst (Result_from_Failure id (Err (Obj (0::int)))) :: (int, int) Result))
   \<and> snd (operator_bool (fst (Result_from_Success id (Ok (Obj (3::int)))) :: (int, int) Result))
       = \<lparr>m_success = True, m_storage = Holds_ok (Obj 3)\<rparr>"
proof -
  let ?s = "fst (Result_from_Success id (Ok (Obj (3::int)))) :: (int, int) Result"
  let ?f = "fst (Result_from_Failure id (Err (Obj (0::int)))) :: (int, int) Result"
  have s: "inv_B ?s" by (rule inv_B_from_Success)
  have f: "inv_B ?f" by (rule inv_B_from_Failure)
  have eq: "?s = \<lparr>m_success = True, m_storage = Holds_ok (Obj 3)\<rparr>"
    by (simp add: Result_from_Success_eq Ok_def)
  have ms: "m_success ?s" and mf: "\<not> m_success ?f"
    by (simp_all add: Result_from_Success_eq Result_from_Failure_eq)
  from operator_bool_reads_discriminant [OF s]
  have "fst (operator_bool ?s) = m_success ?s" and "snd (operator_bool ?s) = ?s"
    by blast+
  with ms eq have "fst (operator_bool ?s)"
    and "snd (operator_bool ?s) = \<lparr>m_success = True, m_storage = Holds_ok (Obj 3)\<rparr>"
    by simp_all
  moreover from operator_bool_reads_discriminant [OF f]
  have "fst (operator_bool ?f) = m_success ?f" by blast
  with mf have "\<not> fst (operator_bool ?f)" by simp
  ultimately show ?thesis using s f by blast
qed

subsection \<open>Construction from a wrapper\<close>

text \<open>
  Claim C10. Building a container from a \<^verbatim>\<open>Success\<close> or a \<^verbatim>\<open>Failure\<close> wrapper leaves
  the wrapper as it was, whatever the payload's move constructor would leave behind: the
  payload is copied into the storage.
\<close>

theorem Result_from_wrapper_copies:
  "snd (Result_from_Success mo ok) = ok
   \<and> m_storage (fst (Result_from_Success mo ok)) = Holds_ok (Success_value ok)
   \<and> snd (Result_from_Failure me err) = err
   \<and> m_storage (fst (Result_from_Failure me err)) = Holds_err (Failure_value err)"
  by (simp add: Result_from_Success_def Result_from_Failure_def)

text \<open>
  A move would show in the wrapper: initialising from a non-const rvalue leaves what the
  move constructor leaves, here the empty string of \<^verbatim>\<open>std::string\<close>.
\<close>

lemma initialise_moves_from_mutable_rvalue:
  "initialise (\<lambda>s. []) Mutable XValue (Obj ''hi'') = (Obj ''hi'', Obj [])"
  "initialise (\<lambda>s. []) Const XValue (Obj ''hi'') = (Obj ''hi'', Obj ''hi'')"
  by simp_all

subsection \<open>Copy construction\<close>

lemma copy_construct_inv:
  assumes "st src = Some r" and "inv_B r"
  shows "copy_construct mo me st this src = Inr (st(this := Some r))"
proof -
  have "(st(src := Some r))(this := Some r) = st(this := Some r)"
    using assms(1) by (auto simp: fun_eq_iff)
  then show ?thesis
    using assms by (simp add: copy_construct_def Result_copy_inv)
qed

lemma destroy_inv:
  assumes "st a = Some r" and "inv_B r"
  shows "destroy st a = Inr (st(a := Some (r\<lparr>m_storage := Raw\<rparr>)))"
  using assms by (simp add: destroy_def Result_dtor_inv)

text \<open>
  Claim C9. Copy construction at an address other than the source's succeeds and leaves
  the source, and every other container, unchanged. The copy has the discriminant of the
  source and, in its own storage, a payload of the active type equal to the source's.
  Neither shares state with the other: destroying the copy leaves the source as it was,
  and destroying the source leaves the copy as it was.
\<close>

theorem copy_construct_fresh_equal_payload:
  assumes "st src = Some r" and "inv_B r" and "this \<noteq> src"
  shows "\<exists>st' c. copy_construct mo me st this src = Inr st'
           \<and> st' src = Some r
           \<and> (\<forall>a. a \<noteq> this \<longrightarrow> st' a = st a)
           \<and> st' this = Some c
           \<and> m_success c = m_success r \<and> m_storage c = m_storage r \<and> inv_B c
           \<and> (\<exists>st''. destroy st' this = Inr st'' \<and> st'' src = Some r)
           \<and> (\<exists>st''. destroy st' src = Inr st'' \<and> st'' this = Some c)"
proof -
  let ?st' = "st(this := Some r)"
  have c: "copy_construct mo me st this src = Inr ?st'"
    using assms(1,2) by (rule copy_construct_inv)
  have src: "?st' src = Some r"
    using assms(1,3) by simp
  have frame: "\<forall>a. a \<noteq> this \<longrightarrow> ?st' a = st a"
    by simp
  have new: "?st' this = Some r"
    by simp
  have d1: "destroy ?st' this = Inr (?st'(this := Some (r\<lparr>m_storage := Raw\<rparr>)))"
    using new assms(2) by (rule destroy_inv)
  have d1': "(?st'(this := Some (r\<lparr>m_storage := Raw\<rparr>))) src = Some r"
    using assms(1,3) by simp
  have d2: "destroy ?st' src = Inr (?st'(src := Some (r\<lparr>m_storage := Raw\<rparr>)))"
    using src assms(2) by (rule destroy_inv)
  have d2': "(?st'(src := Some (r\<lparr>m_storage := Raw\<rparr>))) this = Some r"
    using assms(3) by simp
  from c src frame new assms(2) d1 d1' d2 d2' show ?thesis
    by blast
qed

theorem copy_construct_fresh_equal_payload_witness:
  "(Map.empty(0 := Some (fst (Result_from_Success id (Ok (Obj ''hi'')))))) (0::addr)
       = Some (fst (Result_from_Success id (Ok (Obj ''hi''))) :: (string, int) Result)
   \<and> inv_B (fst (Result_from_Success id (Ok (Obj ''hi''))) :: (string, int) Result)
   \<and> (1::nat) \<noteq> 0
   \<and> (\<exists>st'. copy_construct (\<lambda>s. []) id
               (Map.empty(0 := Some (fst (Result_from_Success id (Ok (Obj ''hi'')))))) 1 0
             = Inr st'
         \<and> st' 0 = Some (\<lparr>m_success = True, m_storage = Holds_ok (Obj ''hi'')\<rparr> :: (string, int) Result)
         \<and> st' 1 = Some \<lparr>m_success = True, m_storage = Holds_ok (Obj ''hi'')\<rparr>
         \<and> (\<exists>st''. destroy st' 1 = Inr st''
                \<and> st'' 0 = Some \<lparr>m_success = True, m_storage = Holds_ok (Obj ''hi'')\<rparr>))"
proof -
  let ?r = "fst (Result_from_Success id (Ok (Obj ''hi''))) :: (string, int) Result"
  let ?st = "(Map.empty(0 := Some ?r)) :: (string, int) store"
  have a: "?st 0 = Some ?r" by simp
  have i: "inv_B ?r" by (rule inv_B_from_Success)
  have n: "(1::nat) \<noteq> 0" by simp
  have eq: "?r = \<lparr>m_success = True, m_storage = Holds_ok (Obj ''hi'')\<rparr>"
    by (simp add: Result_from_Success_eq Ok_def)
  from copy_construct_fresh_equal_payload
         [where st = ?st and src = 0 and r = ?r and this = 1 and mo = "\<lambda>s. []" and me = id]
       a i n
  obtain st' c where "copy_construct (\<lambda>s. []) id ?st 1 0 = Inr st'"
    and "st' 0 = Some ?r" and "st' 1 = Some c"
    and "m_success c = m_success ?r" and "m_storage c = m_storage ?r"
    and "\<exists>st''. destroy st' 1 = Inr st'' \<and> st'' 0 = Some ?r"
    by blast
  moreover from this have "c = ?r" by simp
  ultimately have "\<exists>st'. copy_construct (\<lambda>s. []) id ?st 1 0 = Inr st'
      \<and> st' 0 = Some ?r \<and> st' 1 = Some ?r
      \<and> (\<exists>st''. destroy st' 1 = Inr st'' \<and> st'' 0 = Some ?r)"
    by blast
  with a i n show ?thesis
    unfolding eq by (intro conjI) assumption+
qed

subsection \<open>Move construction and the moved-from container\<close>

lemma move_construct_inv:
  assumes "st src = Some r" and "inv_B r"
  shows "move_construct mo me st this src
           = Inr ((st(src := Some (r\<lparr>m_storage := Raw\<rparr>)))(this := Some r))"
  using assms by (simp add: move_construct_def Result_move_inv)

text \<open>
  Move construction gives the new container the discriminant and the payload of the
  source, and leaves the source with its discriminant and no payload alive: line 115 has
  run the payload's destructor on it. The destructor of the source, when it runs at the
  end of the source's life, finds no object in the storage.
\<close>

lemma move_construct_then_destroy:
  assumes "st src = Some r" and "inv_B r" and "this \<noteq> src"
  shows "\<exists>st'. move_construct mo me st this src = Inr st'
           \<and> st' this = Some r
           \<and> st' src = Some (r\<lparr>m_storage := Raw\<rparr>)
           \<and> destroy st' src = Inl Lifetime_ended"
proof -
  let ?st' = "(st(src := Some (r\<lparr>m_storage := Raw\<rparr>)))(this := Some r)"
  have "move_construct mo me st this src = Inr ?st'"
    using assms(1,2) by (rule move_construct_inv)
  moreover have "?st' this = Some r" by simp
  moreover have s: "?st' src = Some (r\<lparr>m_storage := Raw\<rparr>)"
    using assms(3) by simp
  moreover have "destroy ?st' src = Inl Lifetime_ended"
    unfolding destroy_def s by (simp add: Result_dtor_Raw)
  ultimately show ?thesis by blast
qed

text \<open>
  Claim C5. \<^verbatim>\<open>Result<std::string, int> a = Ok(std::string("hi")); Result<std::string, int> b(std::move(a));\<close>
  with \<open>a\<close> at address 0 and \<open>b\<close> at address 1. The move constructor gives \<open>b\<close> the
  discriminant and the payload, and destroys the payload of \<open>a\<close> itself. When \<open>a\<close>
  goes out of scope, its destructor runs the payload's destructor a second time, on
  storage that holds no object.
\<close>

theorem moved_from_source_destroyed_twice:
  "move_construct (\<lambda>s. []) id
      (Map.empty(0 := Some (fst (Result_from_Success id (Ok (Obj ''hi'')))))) 1 0
     = Inr ((Map.empty(0 := Some \<lparr>m_success = True, m_storage = Raw\<rparr>))
              (1 := Some (\<lparr>m_success = True, m_storage = Holds_ok (Obj ''hi'')\<rparr> :: (string, int) Result)))
   \<and> destroy ((Map.empty(0 := Some \<lparr>m_success = True, m_storage = Raw\<rparr>))
              (1 := Some (\<lparr>m_success = True, m_storage = Holds_ok (Obj ''hi'')\<rparr> :: (string, int) Result))) 0
     = Inl Lifetime_ended"
  by (simp add: move_construct_def Result_move_def Result_dtor_def destroy_def
      Result_from_Success_eq Ok_def Result_Ok_def Result_Err_def payload_fault_def)

subsection \<open>The failure payload type\<close>

text \<open>
  Claim C6. The assertion of line 81 compares the failure payload type with
  \<^verbatim>\<open>void\<close>, so it lets \<^verbatim>\<open>None\<close> through: \<^verbatim>\<open>Result<int, None>\<close> is instantiated, and
  a container built from \<^verbatim>\<open>Err(None(nullptr))\<close> is a failure whose payload is the
  value-less null pointer.
\<close>

theorem static_assert_accepts_None:
  "Result_static_assert None_t
   \<and> \<not> Result_static_assert void_t
   \<and> GetErr (fst (Result_from_Failure id (Err nullptr)) :: (int, unit) Result) = Return nullptr"
  by (simp add: Result_static_assert_def is_same_v_def GetErr_def Result_from_Failure_eq
      Err_def Result_Err_def returning_def)

end
